theory Spec2Isabelle
  imports Main
begin

section \<open>Data model (app/database.py, app/schemas.py)\<close>

text \<open>
  The tables of \<^verbatim>\<open>app/database.py\<close> are lists of rows. Only the columns the
  handlers below read or write are kept; the \<^verbatim>\<open>created_at\<close> and
  \<^verbatim>\<open>updated_at\<close> columns are filled by the database clock and are not modelled.
  Python integers are \<^typ>\<open>int\<close>. The relationship \<^verbatim>\<open>User.skills_offered\<close> is the
  list of the ids of the skills linked to the user through the association table.
\<close>

record User =
  user_id :: int
  is_active :: bool
  skills_offered :: "int list"
  skills_wanted :: "int list"

record Skill =
  skill_id :: int
  name :: string
  category :: "string option"
  description :: "string option"
  is_approved :: bool

record SwapRequest =
  request_id :: int
  requester_id :: int
  requested_id :: int
  skill_offered_id :: int
  skill_wanted_id :: int
  message :: "string option"
  status :: string

record Feedback =
  feedback_id :: int
  swap_request_id :: int
  giver_id :: int
  receiver_id :: int
  rating :: int
  comment :: "string option"

record Database =
  users :: "User list"
  skills :: "Skill list"
  swap_requests :: "SwapRequest list"
  feedback :: "Feedback list"

text \<open>The request bodies of \<^verbatim>\<open>app/schemas.py\<close>. Their fields carry a prefix, since
  a record field is a constant of the theory.\<close>

record SwapRequestCreate =
  c_requested_id :: int
  c_skill_offered_id :: int
  c_skill_wanted_id :: int
  c_message :: "string option"

text \<open>
  \<^verbatim>\<open>SwapRequestUpdate\<close>: \<^verbatim>\<open>status: str\<close> is required and unconstrained;
  \<^verbatim>\<open>message\<close> is optional. The handler reads the body with
  \<^verbatim>\<open>dict(exclude_unset=True)\<close>, so an absent message (\<open>None\<close>) differs from a
  message sent as null (\<open>Some None\<close>).
\<close>

record SwapRequestUpdate =
  u_status :: string
  u_message :: "string option option"

record SkillCreate =
  s_name :: string
  s_category :: "string option"
  s_description :: "string option"

record FeedbackCreate =
  f_swap_request_id :: int
  f_receiver_id :: int
  f_rating :: int
  f_comment :: "string option"

text \<open>
  Errors are values. \<open>HTTPException code detail\<close> is what the handlers raise;
  \<open>IntegrityError\<close> is what the database raises at commit when a row breaks a
  uniqueness constraint of \<^verbatim>\<open>app/database.py\<close>.
\<close>

datatype error = HTTPException int string | IntegrityError string

definition HTTP_400_BAD_REQUEST :: int where "HTTP_400_BAD_REQUEST = 400"
definition HTTP_403_FORBIDDEN :: int where "HTTP_403_FORBIDDEN = 403"
definition HTTP_404_NOT_FOUND :: int where "HTTP_404_NOT_FOUND = 404"

text \<open>The id the database gives a new row: one more than the largest id of the table,
  and 1 in an empty table.\<close>

definition next_id :: "int list \<Rightarrow> int" where
  "next_id ids = (if ids = [] then 1 else Max (set ids) + 1)"

section \<open>Swap requests (app/routers/swaps.py)\<close>

text \<open>
  Every handler takes the database and returns the database after the call together
  with its outcome: \<open>Inl\<close> the exception raised, \<open>Inr\<close> the value returned.
  \<^verbatim>\<open>query.filter(...).first()\<close> is \<^const>\<open>find\<close>.
\<close>

text \<open>The filter of the duplicate query of \<^verbatim>\<open>create_swap_request\<close> (lines 84-90).\<close>

definition pending_match :: "int \<Rightarrow> int \<Rightarrow> int \<Rightarrow> int \<Rightarrow> SwapRequest \<Rightarrow> bool" where
  "pending_match requester requested offered wanted r \<longleftrightarrow>
     requester_id r = requester \<and> requested_id r = requested \<and>
     skill_offered_id r = offered \<and> skill_wanted_id r = wanted \<and>
     status r = ''pending''"

definition create_swap_request ::
  "Database \<Rightarrow> User \<Rightarrow> SwapRequestCreate \<Rightarrow> Database \<times> (error + SwapRequest)" where
  "create_swap_request db current_user swap_request =
    (case find (\<lambda>u. user_id u = c_requested_id swap_request) (users db) of
       None \<Rightarrow> (db, Inl (HTTPException HTTP_404_NOT_FOUND ''Requested user not found or inactive''))
     | Some requested_user \<Rightarrow>
       if \<not> is_active requested_user then
         (db, Inl (HTTPException HTTP_404_NOT_FOUND ''Requested user not found or inactive''))
       else if c_requested_id swap_request = user_id current_user then
         (db, Inl (HTTPException HTTP_400_BAD_REQUEST ''Cannot request a swap with yourself''))
       else
         (case (find (\<lambda>s. skill_id s = c_skill_offered_id swap_request) (skills db),
                find (\<lambda>s. skill_id s = c_skill_wanted_id swap_request) (skills db)) of
            (Some skill_offered, Some skill_wanted) \<Rightarrow>
              if skill_id skill_offered \<notin> set (skills_offered current_user) then
                (db, Inl (HTTPException HTTP_400_BAD_REQUEST
                   ''You don't offer the skill you're proposing to teach''))
              else if skill_id skill_wanted \<notin> set (skills_offered requested_user) then
                (db, Inl (HTTPException HTTP_400_BAD_REQUEST
                   ''The requested user doesn't offer the skill you want to learn''))
              else
                (case find (pending_match (user_id current_user) (c_requested_id swap_request)
                              (c_skill_offered_id swap_request) (c_skill_wanted_id swap_request))
                        (swap_requests db) of
                   Some existing_request \<Rightarrow>
                     (db, Inl (HTTPException HTTP_400_BAD_REQUEST
                        ''A pending request for this skill swap already exists''))
                 | None \<Rightarrow>
                     let db_request = \<lparr>
                           request_id = next_id (map request_id (swap_requests db)),
                           requester_id = user_id current_user,
                           requested_id = c_requested_id swap_request,
                           skill_offered_id = c_skill_offered_id swap_request,
                           skill_wanted_id = c_skill_wanted_id swap_request,
                           message = c_message swap_request,
                           status = ''pending'' \<rparr>
                     in (db\<lparr>swap_requests := swap_requests db @ [db_request]\<rparr>, Inr db_request))
          | _ \<Rightarrow> (db, Inl (HTTPException HTTP_404_NOT_FOUND ''One or both skills not found''))))"

text \<open>The permission checks of \<^verbatim>\<open>update_swap_request\<close> (lines 154-175): the
  exception they raise, if any.\<close>

definition validate_permissions :: "SwapRequest \<Rightarrow> User \<Rightarrow> string \<Rightarrow> error option" where
  "validate_permissions swap_request current_user new_status =
    (if new_status \<in> set [''accepted'', ''rejected''] then
       (if requested_id swap_request \<noteq> user_id current_user then
          Some (HTTPException HTTP_403_FORBIDDEN
                  ''Only the requested user can accept or reject requests'')
        else None)
     else if new_status = ''cancelled'' then
       (if requester_id swap_request \<noteq> user_id current_user then
          Some (HTTPException HTTP_403_FORBIDDEN ''Only the requester can cancel requests'')
        else None)
     else if new_status = ''completed'' then
       (if requester_id swap_request \<noteq> user_id current_user \<and>
           requested_id swap_request \<noteq> user_id current_user then
          Some (HTTPException HTTP_403_FORBIDDEN ''Not authorized to update this request'')
        else None)
     else None)"

text \<open>The \<^verbatim>\<open>setattr\<close> loop over the fields that were sent (lines 178-179).\<close>

definition apply_update :: "SwapRequestUpdate \<Rightarrow> SwapRequest \<Rightarrow> SwapRequest" where
  "apply_update update_data r =
    (case u_message update_data of
       None \<Rightarrow> r\<lparr>status := u_status update_data\<rparr>
     | Some m \<Rightarrow> r\<lparr>status := u_status update_data, message := m\<rparr>)"

definition update_swap_request ::
  "Database \<Rightarrow> User \<Rightarrow> int \<Rightarrow> SwapRequestUpdate \<Rightarrow> Database \<times> (error + SwapRequest)" where
  "update_swap_request db current_user rid update_data =
    (case find (\<lambda>r. request_id r = rid) (swap_requests db) of
       None \<Rightarrow> (db, Inl (HTTPException HTTP_404_NOT_FOUND ''Swap request not found''))
     | Some swap_request \<Rightarrow>
       (case validate_permissions swap_request current_user (u_status update_data) of
          Some e \<Rightarrow> (db, Inl e)
        | None \<Rightarrow>
            (db\<lparr>swap_requests :=
                   map (\<lambda>r. if request_id r = rid then apply_update update_data r else r)
                       (swap_requests db)\<rparr>,
             Inr (apply_update update_data swap_request))))"

definition delete_swap_request ::
  "Database \<Rightarrow> User \<Rightarrow> int \<Rightarrow> Database \<times> (error + string)" where
  "delete_swap_request db current_user rid =
    (case find (\<lambda>r. request_id r = rid) (swap_requests db) of
       None \<Rightarrow> (db, Inl (HTTPException HTTP_404_NOT_FOUND ''Swap request not found''))
     | Some swap_request \<Rightarrow>
       if requester_id swap_request \<noteq> user_id current_user then
         (db, Inl (HTTPException HTTP_403_FORBIDDEN
            ''Only the requester can delete their own requests''))
       else if status swap_request \<noteq> ''pending'' then
         (db, Inl (HTTPException HTTP_400_BAD_REQUEST ''Can only delete pending requests''))
       else
         (db\<lparr>swap_requests := filter (\<lambda>r. request_id r \<noteq> rid) (swap_requests db)\<rparr>,
          Inr ''Swap request deleted successfully''))"

text \<open>The number of stored pending requests with a given (requester, requested,
  skill offered, skill wanted) tuple.\<close>

definition pending_count :: "int \<Rightarrow> int \<Rightarrow> int \<Rightarrow> int \<Rightarrow> Database \<Rightarrow> nat" where
  "pending_count requester requested offered wanted db =
     length (filter (pending_match requester requested offered wanted) (swap_requests db))"

section \<open>Skills (app/routers/skills.py)\<close>

text \<open>
  Strings are ASCII: a \<^typ>\<open>char\<close> is a byte, and the functions below treat a byte above
  127 as a character that is neither a letter nor white space. \<open>isspace\<close>,
  \<open>strip\<close> and \<open>title\<close> are Python's \<^verbatim>\<open>str\<close> methods; \<open>like\<close> is the
  \<^verbatim>\<open>LIKE\<close> of SQL, where \<^verbatim>\<open>%\<close> in the pattern stands for any run of characters and
  \<^verbatim>\<open>_\<close> for any one character; \<open>ilike\<close> compares in lower case.
\<close>

definition isspace :: "char \<Rightarrow> bool" where
  "isspace c \<longleftrightarrow> (let n = (of_char c :: nat) in (9 \<le> n \<and> n \<le> 13) \<or> (28 \<le> n \<and> n \<le> 32))"

definition isupper :: "char \<Rightarrow> bool" where
  "isupper c \<longleftrightarrow> (let n = (of_char c :: nat) in 65 \<le> n \<and> n \<le> 90)"

definition islower :: "char \<Rightarrow> bool" where
  "islower c \<longleftrightarrow> (let n = (of_char c :: nat) in 97 \<le> n \<and> n \<le> 122)"

definition toupper :: "char \<Rightarrow> char" where
  "toupper c = (if islower c then char_of ((of_char c :: nat) - 32) else c)"

definition tolower :: "char \<Rightarrow> char" where
  "tolower c = (if isupper c then char_of ((of_char c :: nat) + 32) else c)"

definition strip :: "string \<Rightarrow> string" where
  "strip s = rev (dropWhile isspace (rev (dropWhile isspace s)))"

text \<open>\<open>title_from previous_is_cased s\<close>: a letter that follows a letter is put in
  lower case, any other letter in upper case.\<close>

fun title_from :: "bool \<Rightarrow> string \<Rightarrow> string" where
  "title_from previous_is_cased [] = []"
| "title_from previous_is_cased (c # cs) =
     (if islower c then
        (if previous_is_cased then c else toupper c) # title_from True cs
      else if isupper c then
        (if previous_is_cased then tolower c else c) # title_from True cs
      else c # title_from False cs)"

definition title :: "string \<Rightarrow> string" where
  "title s = title_from False s"

fun like :: "string \<Rightarrow> string \<Rightarrow> bool" where
  "like [] [] = True"
| "like [] (c # cs) = False"
| "like (p # ps) [] = (p = CHR ''%'' \<and> like ps [])"
| "like (p # ps) (c # cs) =
     (if p = CHR ''%'' then like ps (c # cs) \<or> like (p # ps) cs
      else if p = CHR ''_'' then like ps cs
      else p = c \<and> like ps cs)"

definition ilike :: "string \<Rightarrow> string \<Rightarrow> bool" where
  "ilike column pattern = like (map tolower pattern) (map tolower column)"

text \<open>
  \<^verbatim>\<open>create_skill\<close>. The column \<^verbatim>\<open>Skill.name\<close> is declared \<^verbatim>\<open>unique=True\<close>, so the
  commit of a row whose name is already stored raises \<open>IntegrityError\<close> and stores
  nothing. A category that is absent or empty is stored as null.
\<close>

definition create_skill ::
  "Database \<Rightarrow> User \<Rightarrow> SkillCreate \<Rightarrow> Database \<times> (error + Skill)" where
  "create_skill db current_user skill =
    (case find (\<lambda>s. ilike (name s) (s_name skill)) (skills db) of
       Some existing_skill \<Rightarrow>
         if is_approved existing_skill then (db, Inr existing_skill)
         else (db, Inl (HTTPException HTTP_400_BAD_REQUEST
                          ''Skill exists but is pending approval''))
     | None \<Rightarrow>
         let db_skill = \<lparr>
               skill_id = next_id (map skill_id (skills db)),
               name = title (strip (s_name skill)),
               category = (case s_category skill of
                             None \<Rightarrow> None
                           | Some c \<Rightarrow> if c = [] then None else Some (title (strip c))),
               description = s_description skill,
               is_approved = True \<rparr>
         in if name db_skill \<in> set (map name (skills db)) then
              (db, Inl (IntegrityError ''UNIQUE constraint failed: skills.name''))
            else (db\<lparr>skills := skills db @ [db_skill]\<rparr>, Inr db_skill))"

section \<open>Feedback\<close>

datatype feedback_error = NotFound | Validation

text \<open>
  Modelled from the spec: the handler that submits feedback. No router under
  \<^verbatim>\<open>app/routers\<close> defines it; the source has only the table \<^verbatim>\<open>Feedback\<close> and the
  request body \<^verbatim>\<open>FeedbackCreate\<close>, whose \<^verbatim>\<open>rating\<close> is a plain integer. The spec
  (4.4, 6): the rating must be an integer from 1 to 5 (Validation otherwise), the
  referenced request must exist (NotFound otherwise), giver and receiver must each be
  one of the two parties of the request and differ from each other. The spec names no
  error for the last condition other than the two the operation may return; the model
  returns Validation. The rating, a property of the body alone, is checked first.
\<close>

definition submitFeedback ::
  "Database \<Rightarrow> int \<Rightarrow> FeedbackCreate \<Rightarrow> Database \<times> (feedback_error + Feedback)" where
  "submitFeedback db giverId body =
    (if f_rating body < 1 \<or> 5 < f_rating body then (db, Inl Validation)
     else
       (case find (\<lambda>r. request_id r = f_swap_request_id body) (swap_requests db) of
          None \<Rightarrow> (db, Inl NotFound)
        | Some r \<Rightarrow>
            if giverId \<in> {requester_id r, requested_id r} \<and>
               f_receiver_id body \<in> {requester_id r, requested_id r} \<and>
               giverId \<noteq> f_receiver_id body then
              let row = \<lparr>
                    feedback_id = next_id (map feedback_id (feedback db)),
                    swap_request_id = f_swap_request_id body,
                    giver_id = giverId,
                    receiver_id = f_receiver_id body,
                    rating = f_rating body,
                    comment = f_comment body \<rparr>
              in (db\<lparr>feedback := feedback db @ [row]\<rparr>, Inr row)
            else (db, Inl Validation)))"

section \<open>A small world\<close>

text \<open>Alice offers Guitar and wants Spanish, Bob offers Spanish and wants Guitar, Carol
  offers nothing. These states are the inputs at which the theorems are instantiated.\<close>

definition guitar :: Skill where
  "guitar = \<lparr>skill_id = 1, name = ''Guitar'', category = Some ''Music'',
              description = None, is_approved = True\<rparr>"

definition spanish :: Skill where
  "spanish = \<lparr>skill_id = 2, name = ''Spanish'', category = Some ''Languages'',
               description = None, is_approved = True\<rparr>"

definition alice :: User where
  "alice = \<lparr>user_id = 1, is_active = True, skills_offered = [1], skills_wanted = [2]\<rparr>"

definition bob :: User where
  "bob = \<lparr>user_id = 2, is_active = True, skills_offered = [2], skills_wanted = [1]\<rparr>"

definition carol :: User where
  "carol = \<lparr>user_id = 3, is_active = True, skills_offered = [], skills_wanted = [1]\<rparr>"

definition guitar_for_spanish :: SwapRequestCreate where
  "guitar_for_spanish = \<lparr>c_requested_id = 2, c_skill_offered_id = 1, c_skill_wanted_id = 2,
                          c_message = Some ''Hi Bob''\<rparr>"

definition set_status :: "string \<Rightarrow> SwapRequestUpdate" where
  "set_status s = \<lparr>u_status = s, u_message = None\<rparr>"

definition first_request :: SwapRequest where
  "first_request = \<lparr>request_id = 1, requester_id = 1, requested_id = 2,
                     skill_offered_id = 1, skill_wanted_id = 2,
                     message = Some ''Hi Bob'', status = ''pending''\<rparr>"

definition reopen_with_note :: SwapRequestUpdate where
  "reopen_with_note = \<lparr>u_status = ''pending'', u_message = Some (Some ''reopened'')\<rparr>"

text \<open>Other request bodies: to a user that does not exist, to oneself, for a skill
  that does not exist, and to Carol, who does not offer Spanish.\<close>

definition ask_nobody :: SwapRequestCreate where
  "ask_nobody = \<lparr>c_requested_id = 9, c_skill_offered_id = 1, c_skill_wanted_id = 2,
                  c_message = None\<rparr>"

definition ask_self :: SwapRequestCreate where
  "ask_self = \<lparr>c_requested_id = 1, c_skill_offered_id = 1, c_skill_wanted_id = 2,
                c_message = None\<rparr>"

definition ask_unknown_skill :: SwapRequestCreate where
  "ask_unknown_skill = \<lparr>c_requested_id = 2, c_skill_offered_id = 1, c_skill_wanted_id = 99,
                         c_message = None\<rparr>"

definition ask_carol :: SwapRequestCreate where
  "ask_carol = \<lparr>c_requested_id = 3, c_skill_offered_id = 1, c_skill_wanted_id = 2,
                 c_message = None\<rparr>"

definition db0 :: Database where
  "db0 = \<lparr>users = [alice, bob, carol], skills = [guitar, spanish],
           swap_requests = [], feedback = []\<rparr>"

text \<open>Alice proposes; Alice cancels; Alice proposes again; Carol, a stranger to the
  first request, sets it back to pending.\<close>

definition db1 :: Database where
  "db1 = fst (create_swap_request db0 alice guitar_for_spanish)"

definition db2 :: Database where
  "db2 = fst (update_swap_request db1 alice 1 (set_status ''cancelled''))"

definition db3 :: Database where
  "db3 = fst (create_swap_request db2 alice guitar_for_spanish)"

definition db4 :: Database where
  "db4 = fst (update_swap_request db3 carol 1 (set_status ''pending''))"

text \<open>The state \<open>db1\<close> after an administrator has banned Bob
  (\<^verbatim>\<open>ban_user\<close> of \<^verbatim>\<open>app/routers/admin.py\<close> sets \<^verbatim>\<open>is_active\<close> to false).\<close>

definition db1_bob_banned :: Database where
  "db1_bob_banned = db1\<lparr>users := [alice, bob\<lparr>is_active := False\<rparr>, carol]\<rparr>"

section \<open>Facts shared by the proofs\<close>

lemmas http_codes = HTTP_400_BAD_REQUEST_def HTTP_403_FORBIDDEN_def HTTP_404_NOT_FOUND_def

lemma find_map_update:
  assumes "find (\<lambda>r. request_id r = rid) rs = Some sr"
    and "\<And>r. request_id (f r) = request_id r"
  shows "find (\<lambda>r. request_id r = rid)
           (map (\<lambda>r. if request_id r = rid then f r else r) rs) = Some (f sr)"
  using assms by (induction rs) (auto split: if_splits)

lemma request_id_apply_update: "request_id (apply_update upd r) = request_id r"
  by (simp add: apply_update_def split: option.splits)

lemma status_apply_update: "status (apply_update upd r) = u_status upd"
  by (simp add: apply_update_def split: option.splits)

lemma message_apply_update: "u_message upd = Some m \<Longrightarrow> message (apply_update upd r) = m"
  by (simp add: apply_update_def)

lemma pending_count_pos_iff:
  "0 < pending_count a b offered wanted db \<longleftrightarrow>
     find (pending_match a b offered wanted) (swap_requests db) \<noteq> None"
  by (auto simp: pending_count_def find_None_iff filter_empty_conv)

text \<open>An update that passes the permission checks writes the fields sent to the stored
  row and returns that row.\<close>

lemma update_permitted:
  assumes "find (\<lambda>r. request_id r = rid) (swap_requests db) = Some sr"
    and "validate_permissions sr cu (u_status upd) = None"
  shows "update_swap_request db cu rid upd =
           (db\<lparr>swap_requests :=
                 map (\<lambda>r. if request_id r = rid then apply_update upd r else r)
                     (swap_requests db)\<rparr>,
            Inr (apply_update upd sr))"
    and "find (\<lambda>r. request_id r = rid)
           (swap_requests (fst (update_swap_request db cu rid upd))) = Some (apply_update upd sr)"
proof -
  show eq: "update_swap_request db cu rid upd =
           (db\<lparr>swap_requests :=
                 map (\<lambda>r. if request_id r = rid then apply_update upd r else r)
                     (swap_requests db)\<rparr>,
            Inr (apply_update upd sr))"
    using assms by (simp add: update_swap_request_def)
  show "find (\<lambda>r. request_id r = rid)
          (swap_requests (fst (update_swap_request db cu rid upd))) = Some (apply_update upd sr)"
    using assms(1) by (simp add: eq find_map_update request_id_apply_update)
qed

lemma update_refused:
  assumes "find (\<lambda>r. request_id r = rid) (swap_requests db) = Some sr"
    and "validate_permissions sr cu (u_status upd) = Some e"
  shows "update_swap_request db cu rid upd = (db, Inl e)"
  using assms by (simp add: update_swap_request_def)

text \<open>The shape of every outcome: an exception leaves the database as it was.\<close>

lemma create_outcome:
  "(\<exists>e. create_swap_request db cu req = (db, Inl e)) \<or>
   (find (pending_match (user_id cu) (c_requested_id req) (c_skill_offered_id req)
           (c_skill_wanted_id req)) (swap_requests db) = None \<and>
    (\<exists>r. pending_match (user_id cu) (c_requested_id req) (c_skill_offered_id req)
           (c_skill_wanted_id req) r \<and>
         create_swap_request db cu req =
           (db\<lparr>swap_requests := swap_requests db @ [r]\<rparr>, Inr r)))"
  by (simp add: create_swap_request_def Let_def pending_match_def split: option.split)

lemma update_outcome:
  "(\<exists>e. update_swap_request db cu rid upd = (db, Inl e)) \<or>
   (\<exists>r. update_swap_request db cu rid upd =
      (db\<lparr>swap_requests :=
            map (\<lambda>r. if request_id r = rid then apply_update upd r else r)
                (swap_requests db)\<rparr>, Inr r))"
  by (simp add: update_swap_request_def split: option.split)

lemma delete_outcome:
  "(\<exists>e. delete_swap_request db cu rid = (db, Inl e)) \<or>
   (\<exists>m. delete_swap_request db cu rid =
      (db\<lparr>swap_requests := filter (\<lambda>r. request_id r \<noteq> rid) (swap_requests db)\<rparr>, Inr m))"
  by (simp add: delete_swap_request_def split: option.split)

text \<open>Creation once the checks on the requested user and on the two skills have
  passed: what is left is the two ownership checks and the duplicate query.\<close>

lemma create_after_lookups:
  assumes "find (\<lambda>u. user_id u = c_requested_id req) (users db) = Some ru"
    and "is_active ru"
    and "c_requested_id req \<noteq> user_id cu"
    and "find (\<lambda>s. skill_id s = c_skill_offered_id req) (skills db) = Some so"
    and "find (\<lambda>s. skill_id s = c_skill_wanted_id req) (skills db) = Some sw"
  shows "create_swap_request db cu req =
    (if c_skill_offered_id req \<notin> set (skills_offered cu) then
       (db, Inl (HTTPException 400 ''You don't offer the skill you're proposing to teach''))
     else if c_skill_wanted_id req \<notin> set (skills_offered ru) then
       (db, Inl (HTTPException 400
                   ''The requested user doesn't offer the skill you want to learn''))
     else if 0 < pending_count (user_id cu) (c_requested_id req) (c_skill_offered_id req)
                   (c_skill_wanted_id req) db then
       (db, Inl (HTTPException 400 ''A pending request for this skill swap already exists''))
     else
       (db\<lparr>swap_requests := swap_requests db @
             [\<lparr>request_id = next_id (map request_id (swap_requests db)),
               requester_id = user_id cu, requested_id = c_requested_id req,
               skill_offered_id = c_skill_offered_id req,
               skill_wanted_id = c_skill_wanted_id req,
               message = c_message req, status = ''pending''\<rparr>]\<rparr>,
        Inr \<lparr>request_id = next_id (map request_id (swap_requests db)),
              requester_id = user_id cu, requested_id = c_requested_id req,
              skill_offered_id = c_skill_offered_id req,
              skill_wanted_id = c_skill_wanted_id req,
              message = c_message req, status = ''pending''\<rparr>))"
proof -
  have so: "skill_id so = c_skill_offered_id req"
    using assms(4) by (auto simp: find_Some_iff)
  have sw: "skill_id sw = c_skill_wanted_id req"
    using assms(5) by (auto simp: find_Some_iff)
  show ?thesis
    using assms so sw
    by (simp add: create_swap_request_def http_codes Let_def pending_count_pos_iff
             split: option.split)
qed

text \<open>The three checks that come first in \<^verbatim>\<open>create_swap_request\<close>, in the order
  of the source: the requested user, the self-request, the two skills.\<close>

lemma create_user_missing:
  assumes "find (\<lambda>u. user_id u = c_requested_id req) (users db) = None"
  shows "create_swap_request db cu req =
           (db, Inl (HTTPException 404 ''Requested user not found or inactive''))"
  using assms by (simp add: create_swap_request_def http_codes)

lemma create_user_inactive:
  assumes "find (\<lambda>u. user_id u = c_requested_id req) (users db) = Some ru"
    and "\<not> is_active ru"
  shows "create_swap_request db cu req =
           (db, Inl (HTTPException 404 ''Requested user not found or inactive''))"
  using assms by (simp add: create_swap_request_def http_codes)

lemma create_self:
  assumes "find (\<lambda>u. user_id u = c_requested_id req) (users db) = Some ru"
    and "is_active ru"
    and "c_requested_id req = user_id cu"
  shows "create_swap_request db cu req =
           (db, Inl (HTTPException 400 ''Cannot request a swap with yourself''))"
  using assms by (simp add: create_swap_request_def http_codes)

lemma create_skill_missing:
  assumes "find (\<lambda>u. user_id u = c_requested_id req) (users db) = Some ru"
    and "is_active ru"
    and "c_requested_id req \<noteq> user_id cu"
    and "find (\<lambda>s. skill_id s = c_skill_offered_id req) (skills db) = None \<or>
         find (\<lambda>s. skill_id s = c_skill_wanted_id req) (skills db) = None"
  shows "create_swap_request db cu req =
           (db, Inl (HTTPException 404 ''One or both skills not found''))"
  using assms by (auto simp: create_swap_request_def http_codes split: option.split)

lemma find_after_delete:
  "find (\<lambda>r. request_id r = rid) (filter (\<lambda>r. request_id r \<noteq> rid) rs) = None"
  by (simp add: find_None_iff)

text \<open>How the three operations change the number of pending requests of a tuple.\<close>

lemma pending_after_update:
  assumes "u_status upd \<noteq> ''pending''"
  shows "length (filter (pending_match a b offered wanted)
           (map (\<lambda>r. if request_id r = rid then apply_update upd r else r) rs))
         \<le> length (filter (pending_match a b offered wanted) rs)"
proof (induction rs)
  case Nil
  show ?case by simp
next
  case (Cons r rs)
  have "\<not> pending_match a b offered wanted (apply_update upd r)"
    using assms by (simp add: pending_match_def status_apply_update)
  with Cons show ?case by auto
qed

lemma pending_count_update:
  assumes "u_status upd \<noteq> ''pending''"
  shows "pending_count a b offered wanted (fst (update_swap_request db cu rid upd))
         \<le> pending_count a b offered wanted db"
  using update_outcome [of db cu rid upd] pending_after_update [OF assms]
  by (auto simp: pending_count_def)

lemma length_filter_filter_le:
  "length (filter P (filter Q xs)) \<le> length (filter P xs)"
  by (induction xs) auto

lemma pending_count_delete:
  "pending_count a b offered wanted (fst (delete_swap_request db cu rid))
   \<le> pending_count a b offered wanted db"
  using delete_outcome [of db cu rid]
    length_filter_filter_le [of "pending_match a b offered wanted"
      "\<lambda>r. request_id r \<noteq> rid" "swap_requests db"]
  by (auto simp: pending_count_def)

lemma pending_count_create:
  assumes "pending_count a b offered wanted db \<le> 1"
  shows "pending_count a b offered wanted (fst (create_swap_request db cu req)) \<le> 1"
proof -
  consider (fail) e where "create_swap_request db cu req = (db, Inl e)"
    | (ok) r where
        "find (pending_match (user_id cu) (c_requested_id req) (c_skill_offered_id req)
           (c_skill_wanted_id req)) (swap_requests db) = None"
        "pending_match (user_id cu) (c_requested_id req) (c_skill_offered_id req)
           (c_skill_wanted_id req) r"
        "create_swap_request db cu req = (db\<lparr>swap_requests := swap_requests db @ [r]\<rparr>, Inr r)"
    using create_outcome [of db cu req] by blast
  then show ?thesis
  proof cases
    case fail
    with assms show ?thesis by simp
  next
    case ok
    show ?thesis
    proof (cases "pending_match a b offered wanted r")
      case True
      with ok(2) have same: "a = user_id cu" "b = c_requested_id req"
        "offered = c_skill_offered_id req" "wanted = c_skill_wanted_id req"
        by (simp_all add: pending_match_def)
      have "filter (pending_match a b offered wanted) (swap_requests db) = []"
        using ok(1) unfolding same by (simp add: find_None_iff filter_empty_conv)
      with ok(3) True show ?thesis by (simp add: pending_count_def)
    next
      case False
      with ok(3) assms show ?thesis by (simp add: pending_count_def)
    qed
  qed
qed

section \<open>Facts about the small world\<close>

lemma db1_requests: "swap_requests db1 = [first_request]"
  by code_simp

lemma find_first_in_db1:
  "find (\<lambda>r. request_id r = 1) (swap_requests db1) = Some first_request"
  by code_simp

lemma find_first_in_db2:
  "find (\<lambda>r. request_id r = 1) (swap_requests db2) = Some (first_request\<lparr>status := ''cancelled''\<rparr>)"
  by code_simp

section \<open>The claims\<close>

text \<open>
  C2. For an existing swap request, an update whose target status is accepted or
  rejected succeeds exactly when the actor is the requested party; one whose target is
  cancelled, exactly when the actor is the requester; one whose target is completed,
  exactly when the actor is the requester or the requested party. Any other actor gets
  the 403 (Forbidden) exception of that branch, and the database is unchanged.
\<close>

theorem update_actor_gated:
  assumes "find (\<lambda>r. request_id r = rid) (swap_requests db) = Some sr"
  shows "(u_status upd \<in> {''accepted'', ''rejected''} \<longrightarrow>
            ((\<exists>db' r'. update_swap_request db cu rid upd = (db', Inr r')) \<longleftrightarrow>
               requested_id sr = user_id cu) \<and>
            (requested_id sr \<noteq> user_id cu \<longrightarrow>
               update_swap_request db cu rid upd =
                 (db, Inl (HTTPException 403
                             ''Only the requested user can accept or reject requests''))))
       \<and> (u_status upd = ''cancelled'' \<longrightarrow>
            ((\<exists>db' r'. update_swap_request db cu rid upd = (db', Inr r')) \<longleftrightarrow>
               requester_id sr = user_id cu) \<and>
            (requester_id sr \<noteq> user_id cu \<longrightarrow>
               update_swap_request db cu rid upd =
                 (db, Inl (HTTPException 403 ''Only the requester can cancel requests''))))
       \<and> (u_status upd = ''completed'' \<longrightarrow>
            ((\<exists>db' r'. update_swap_request db cu rid upd = (db', Inr r')) \<longleftrightarrow>
               (requester_id sr = user_id cu \<or> requested_id sr = user_id cu)) \<and>
            (requester_id sr \<noteq> user_id cu \<and> requested_id sr \<noteq> user_id cu \<longrightarrow>
               update_swap_request db cu rid upd =
                 (db, Inl (HTTPException 403 ''Not authorized to update this request''))))"
  using assms
  by (auto simp: update_swap_request_def validate_permissions_def http_codes)

theorem update_actor_gated_witness:
  "find (\<lambda>r. request_id r = 1) (swap_requests db1) = Some first_request
   \<and> requested_id first_request \<noteq> user_id alice
   \<and> update_swap_request db1 alice 1 (set_status ''accepted'') =
       (db1, Inl (HTTPException 403 ''Only the requested user can accept or reject requests''))
   \<and> requester_id first_request \<noteq> user_id bob
   \<and> update_swap_request db1 bob 1 (set_status ''cancelled'') =
       (db1, Inl (HTTPException 403 ''Only the requester can cancel requests''))
   \<and> requester_id first_request \<noteq> user_id carol \<and> requested_id first_request \<noteq> user_id carol
   \<and> update_swap_request db1 carol 1 (set_status ''completed'') =
       (db1, Inl (HTTPException 403 ''Not authorized to update this request''))
   \<and> requested_id first_request = user_id bob
   \<and> (\<exists>db' r'. update_swap_request db1 bob 1 (set_status ''rejected'') = (db', Inr r'))"
proof -
  note h = find_first_in_db1
  have a: "requested_id first_request \<noteq> user_id alice"
    and b: "requester_id first_request \<noteq> user_id bob"
    and c: "requester_id first_request \<noteq> user_id carol"
           "requested_id first_request \<noteq> user_id carol"
    and d: "requested_id first_request = user_id bob"
    by (simp_all add: first_request_def alice_def bob_def carol_def)
  have s: "u_status (set_status ''accepted'') \<in> {''accepted'', ''rejected''}"
          "u_status (set_status ''rejected'') \<in> {''accepted'', ''rejected''}"
          "u_status (set_status ''cancelled'') = ''cancelled''"
          "u_status (set_status ''completed'') = ''completed''"
    by (simp_all add: set_status_def)
  have 1: "update_swap_request db1 alice 1 (set_status ''accepted'') =
       (db1, Inl (HTTPException 403 ''Only the requested user can accept or reject requests''))"
    using update_actor_gated [OF h, of "set_status ''accepted''" alice] s(1) a
    by fast
  have 2: "update_swap_request db1 bob 1 (set_status ''cancelled'') =
       (db1, Inl (HTTPException 403 ''Only the requester can cancel requests''))"
    using update_actor_gated [OF h, of "set_status ''cancelled''" bob] s(3) b
    by fast
  have 3: "update_swap_request db1 carol 1 (set_status ''completed'') =
       (db1, Inl (HTTPException 403 ''Not authorized to update this request''))"
    using update_actor_gated [OF h, of "set_status ''completed''" carol] s(4) c
    by fast
  have 4: "\<exists>db' r'. update_swap_request db1 bob 1 (set_status ''rejected'') = (db', Inr r')"
    using update_actor_gated [OF h, of "set_status ''rejected''" bob] s(2) d
    by fast
  show ?thesis by (intro conjI h a b c d 1 2 3 4)
qed

text \<open>
  C3. For an existing swap request and an update whose target status is none of
  accepted, rejected, cancelled, completed (pending, or any other string), no permission
  is checked: for every current user the call succeeds, the stored row takes the status
  and, when one was sent, the message of the body, and that row is returned.
\<close>

theorem update_other_status_unchecked:
  assumes "find (\<lambda>r. request_id r = rid) (swap_requests db) = Some sr"
    and "u_status upd \<notin> {''accepted'', ''rejected'', ''cancelled'', ''completed''}"
  shows "update_swap_request db cu rid upd =
           (db\<lparr>swap_requests :=
                 map (\<lambda>r. if request_id r = rid then apply_update upd r else r)
                     (swap_requests db)\<rparr>,
            Inr (apply_update upd sr))
       \<and> find (\<lambda>r. request_id r = rid)
           (swap_requests (fst (update_swap_request db cu rid upd))) = Some (apply_update upd sr)
       \<and> status (apply_update upd sr) = u_status upd
       \<and> (\<forall>m. u_message upd = Some m \<longrightarrow> message (apply_update upd sr) = m)"
proof -
  have "validate_permissions sr cu (u_status upd) = None"
    using assms(2) by (simp add: validate_permissions_def)
  from update_permitted [OF assms(1) this] show ?thesis
    by (simp add: status_apply_update message_apply_update)
qed

theorem update_other_status_unchecked_witness:
  "find (\<lambda>r. request_id r = 1) (swap_requests db3) = Some (first_request\<lparr>status := ''cancelled''\<rparr>)
   \<and> u_status reopen_with_note \<notin> {''accepted'', ''rejected'', ''cancelled'', ''completed''}
   \<and> user_id carol \<noteq> requester_id first_request \<and> user_id carol \<noteq> requested_id first_request
   \<and> snd (update_swap_request db3 carol 1 reopen_with_note) =
       Inr (first_request\<lparr>message := Some ''reopened''\<rparr>)
   \<and> find (\<lambda>r. request_id r = 1)
        (swap_requests (fst (update_swap_request db3 carol 1 reopen_with_note))) =
       Some (first_request\<lparr>message := Some ''reopened''\<rparr>)"
proof -
  have h: "find (\<lambda>r. request_id r = 1) (swap_requests db3) =
             Some (first_request\<lparr>status := ''cancelled''\<rparr>)"
    by code_simp
  have n: "u_status reopen_with_note \<notin> {''accepted'', ''rejected'', ''cancelled'', ''completed''}"
    by (simp add: reopen_with_note_def)
  have c: "user_id carol \<noteq> requester_id first_request"
          "user_id carol \<noteq> requested_id first_request"
    by (simp_all add: carol_def first_request_def)
  have e: "apply_update reopen_with_note (first_request\<lparr>status := ''cancelled''\<rparr>) =
             first_request\<lparr>message := Some ''reopened''\<rparr>"
    by (simp add: apply_update_def reopen_with_note_def first_request_def)
  note t = update_other_status_unchecked [OF h n, of carol, unfolded e]
  from t have 1: "snd (update_swap_request db3 carol 1 reopen_with_note) =
       Inr (first_request\<lparr>message := Some ''reopened''\<rparr>)"
    by (simp only: snd_conv)
  from t have 2: "find (\<lambda>r. request_id r = 1)
        (swap_requests (fst (update_swap_request db3 carol 1 reopen_with_note))) =
       Some (first_request\<lparr>message := Some ''reopened''\<rparr>)"
    by fast
  show ?thesis by (intro conjI h n c 1 2)
qed

text \<open>
  C5. The update checks the actor and never the current status: for an existing
  request, whatever its current status, an update to accepted or rejected by the
  requested party, to cancelled by the requester, or to completed by either party
  succeeds and stores the target status. In particular the requested party can accept
  a cancelled request.
\<close>

theorem update_ignores_current_status:
  assumes "find (\<lambda>r. request_id r = rid) (swap_requests db) = Some sr"
    and "(u_status upd \<in> {''accepted'', ''rejected''} \<and> requested_id sr = user_id cu) \<or>
         (u_status upd = ''cancelled'' \<and> requester_id sr = user_id cu) \<or>
         (u_status upd = ''completed'' \<and>
            (requester_id sr = user_id cu \<or> requested_id sr = user_id cu))"
  shows "update_swap_request db cu rid upd =
           (db\<lparr>swap_requests :=
                 map (\<lambda>r. if request_id r = rid then apply_update upd r else r)
                     (swap_requests db)\<rparr>,
            Inr (apply_update upd sr))
       \<and> find (\<lambda>r. request_id r = rid)
           (swap_requests (fst (update_swap_request db cu rid upd))) = Some (apply_update upd sr)
       \<and> status (apply_update upd sr) = u_status upd"
proof -
  have "validate_permissions sr cu (u_status upd) = None"
    using assms(2) by (auto simp: validate_permissions_def)
  from update_permitted [OF assms(1) this] show ?thesis
    by (simp add: status_apply_update)
qed

theorem update_ignores_current_status_witness:
  "find (\<lambda>r. request_id r = 1) (swap_requests db2) = Some (first_request\<lparr>status := ''cancelled''\<rparr>)
   \<and> status (first_request\<lparr>status := ''cancelled''\<rparr>) = ''cancelled''
   \<and> u_status (set_status ''accepted'') \<in> {''accepted'', ''rejected''}
   \<and> requested_id (first_request\<lparr>status := ''cancelled''\<rparr>) = user_id bob
   \<and> snd (update_swap_request db2 bob 1 (set_status ''accepted'')) =
       Inr (first_request\<lparr>status := ''accepted''\<rparr>)
   \<and> find (\<lambda>r. request_id r = 1)
        (swap_requests (fst (update_swap_request db2 bob 1 (set_status ''accepted'')))) =
       Some (first_request\<lparr>status := ''accepted''\<rparr>)"
proof -
  note h = find_first_in_db2
  have s: "status (first_request\<lparr>status := ''cancelled''\<rparr>) = ''cancelled''"
    by simp
  have a: "u_status (set_status ''accepted'') \<in> {''accepted'', ''rejected''}"
    by (simp add: set_status_def)
  have b: "requested_id (first_request\<lparr>status := ''cancelled''\<rparr>) = user_id bob"
    by (simp add: first_request_def bob_def)
  have e: "apply_update (set_status ''accepted'') (first_request\<lparr>status := ''cancelled''\<rparr>) =
             first_request\<lparr>status := ''accepted''\<rparr>"
    by (simp add: apply_update_def set_status_def)
  have p: "(u_status (set_status ''accepted'') \<in> {''accepted'', ''rejected''} \<and>
            requested_id (first_request\<lparr>status := ''cancelled''\<rparr>) = user_id bob) \<or>
           (u_status (set_status ''accepted'') = ''cancelled'' \<and>
            requester_id (first_request\<lparr>status := ''cancelled''\<rparr>) = user_id bob) \<or>
           (u_status (set_status ''accepted'') = ''completed'' \<and>
            (requester_id (first_request\<lparr>status := ''cancelled''\<rparr>) = user_id bob \<or>
             requested_id (first_request\<lparr>status := ''cancelled''\<rparr>) = user_id bob))"
    using a b by (intro disjI1 conjI)
  note t = update_ignores_current_status [OF h p, unfolded e]
  from t have 1: "snd (update_swap_request db2 bob 1 (set_status ''accepted'')) =
       Inr (first_request\<lparr>status := ''accepted''\<rparr>)"
    by (simp only: snd_conv)
  from t have 2: "find (\<lambda>r. request_id r = 1)
        (swap_requests (fst (update_swap_request db2 bob 1 (set_status ''accepted'')))) =
       Some (first_request\<lparr>status := ''accepted''\<rparr>)"
    by fast
  show ?thesis by (intro conjI h s a b 1 2)
qed

text \<open>
  C6. When the requested user exists and is active, the two users differ, both skills
  exist and no pending request with the same tuple is stored, the creation succeeds
  exactly when the requester offers the skill offered and the requested user offers the
  skill wanted; it then appends to the stored requests, and returns, a pending request
  with a new id that carries the requester, the requested user, the two skills and the
  message of the call, and changes nothing else. If the requester does not offer the
  skill offered, or offers it while the requested user does not offer the skill wanted,
  the call raises the 400 (InvalidOperation) exception of that check and the database
  is unchanged.
\<close>

theorem create_skill_ownership_gate:
  assumes "find (\<lambda>u. user_id u = c_requested_id req) (users db) = Some ru"
    and "is_active ru"
    and "c_requested_id req \<noteq> user_id cu"
    and "find (\<lambda>s. skill_id s = c_skill_offered_id req) (skills db) = Some so"
    and "find (\<lambda>s. skill_id s = c_skill_wanted_id req) (skills db) = Some sw"
    and "pending_count (user_id cu) (c_requested_id req) (c_skill_offered_id req)
           (c_skill_wanted_id req) db = 0"
  shows "((\<exists>db' r. create_swap_request db cu req = (db', Inr r)) \<longleftrightarrow>
           (c_skill_offered_id req \<in> set (skills_offered cu) \<and>
            c_skill_wanted_id req \<in> set (skills_offered ru)))
       \<and> (c_skill_offered_id req \<in> set (skills_offered cu) \<and>
          c_skill_wanted_id req \<in> set (skills_offered ru) \<longrightarrow>
            create_swap_request db cu req =
              (db\<lparr>swap_requests := swap_requests db @
                    [\<lparr>request_id = next_id (map request_id (swap_requests db)),
                      requester_id = user_id cu, requested_id = c_requested_id req,
                      skill_offered_id = c_skill_offered_id req,
                      skill_wanted_id = c_skill_wanted_id req,
                      message = c_message req, status = ''pending''\<rparr>]\<rparr>,
               Inr \<lparr>request_id = next_id (map request_id (swap_requests db)),
                     requester_id = user_id cu, requested_id = c_requested_id req,
                     skill_offered_id = c_skill_offered_id req,
                     skill_wanted_id = c_skill_wanted_id req,
                     message = c_message req, status = ''pending''\<rparr>))
       \<and> (c_skill_offered_id req \<notin> set (skills_offered cu) \<longrightarrow>
            create_swap_request db cu req =
              (db, Inl (HTTPException 400
                          ''You don't offer the skill you're proposing to teach'')))
       \<and> (c_skill_offered_id req \<in> set (skills_offered cu) \<and>
          c_skill_wanted_id req \<notin> set (skills_offered ru) \<longrightarrow>
            create_swap_request db cu req =
              (db, Inl (HTTPException 400
                          ''The requested user doesn't offer the skill you want to learn'')))"
  unfolding create_after_lookups [OF assms(1-5)] using assms(6) by simp

theorem create_skill_ownership_gate_witness:
  "find (\<lambda>u. user_id u = c_requested_id guitar_for_spanish) (users db0) = Some bob
   \<and> is_active bob
   \<and> c_requested_id guitar_for_spanish \<noteq> user_id alice
   \<and> c_requested_id guitar_for_spanish \<noteq> user_id carol
   \<and> find (\<lambda>s. skill_id s = c_skill_offered_id guitar_for_spanish) (skills db0) = Some guitar
   \<and> find (\<lambda>s. skill_id s = c_skill_wanted_id guitar_for_spanish) (skills db0) = Some spanish
   \<and> pending_count (user_id alice) (c_requested_id guitar_for_spanish)
        (c_skill_offered_id guitar_for_spanish) (c_skill_wanted_id guitar_for_spanish) db0 = 0
   \<and> pending_count (user_id carol) (c_requested_id guitar_for_spanish)
        (c_skill_offered_id guitar_for_spanish) (c_skill_wanted_id guitar_for_spanish) db0 = 0
   \<and> c_skill_offered_id guitar_for_spanish \<in> set (skills_offered alice)
   \<and> c_skill_wanted_id guitar_for_spanish \<in> set (skills_offered bob)
   \<and> create_swap_request db0 alice guitar_for_spanish =
       (db0\<lparr>swap_requests := [first_request]\<rparr>, Inr first_request)
   \<and> c_skill_offered_id guitar_for_spanish \<notin> set (skills_offered carol)
   \<and> create_swap_request db0 carol guitar_for_spanish =
       (db0, Inl (HTTPException 400 ''You don't offer the skill you're proposing to teach''))
   \<and> find (\<lambda>u. user_id u = c_requested_id ask_carol) (users db0) = Some carol
   \<and> is_active carol
   \<and> c_requested_id ask_carol \<noteq> user_id alice
   \<and> find (\<lambda>s. skill_id s = c_skill_offered_id ask_carol) (skills db0) = Some guitar
   \<and> find (\<lambda>s. skill_id s = c_skill_wanted_id ask_carol) (skills db0) = Some spanish
   \<and> pending_count (user_id alice) (c_requested_id ask_carol)
        (c_skill_offered_id ask_carol) (c_skill_wanted_id ask_carol) db0 = 0
   \<and> c_skill_offered_id ask_carol \<in> set (skills_offered alice)
   \<and> c_skill_wanted_id ask_carol \<notin> set (skills_offered carol)
   \<and> create_swap_request db0 alice ask_carol =
       (db0, Inl (HTTPException 400
                    ''The requested user doesn't offer the skill you want to learn''))"
proof -
  have u: "find (\<lambda>u. user_id u = c_requested_id guitar_for_spanish) (users db0) = Some bob"
    by code_simp
  have b: "is_active bob"
    by (simp add: bob_def)
  have na: "c_requested_id guitar_for_spanish \<noteq> user_id alice"
    and nc: "c_requested_id guitar_for_spanish \<noteq> user_id carol"
    by (simp_all add: guitar_for_spanish_def alice_def carol_def)
  have so: "find (\<lambda>s. skill_id s = c_skill_offered_id guitar_for_spanish) (skills db0) = Some guitar"
    by code_simp
  have sw: "find (\<lambda>s. skill_id s = c_skill_wanted_id guitar_for_spanish) (skills db0) = Some spanish"
    by code_simp
  have pa: "pending_count (user_id alice) (c_requested_id guitar_for_spanish)
        (c_skill_offered_id guitar_for_spanish) (c_skill_wanted_id guitar_for_spanish) db0 = 0"
    and pc: "pending_count (user_id carol) (c_requested_id guitar_for_spanish)
        (c_skill_offered_id guitar_for_spanish) (c_skill_wanted_id guitar_for_spanish) db0 = 0"
    by (simp_all add: pending_count_def db0_def)
  have oa: "c_skill_offered_id guitar_for_spanish \<in> set (skills_offered alice)"
    and ob: "c_skill_wanted_id guitar_for_spanish \<in> set (skills_offered bob)"
    and oc: "c_skill_offered_id guitar_for_spanish \<notin> set (skills_offered carol)"
    by (simp_all add: guitar_for_spanish_def alice_def bob_def carol_def)
  have row: "\<lparr>request_id = next_id (map request_id (swap_requests db0)),
              requester_id = user_id alice, requested_id = c_requested_id guitar_for_spanish,
              skill_offered_id = c_skill_offered_id guitar_for_spanish,
              skill_wanted_id = c_skill_wanted_id guitar_for_spanish,
              message = c_message guitar_for_spanish, status = ''pending''\<rparr> = first_request"
    by (simp add: db0_def next_id_def alice_def guitar_for_spanish_def first_request_def)
  have nil: "swap_requests db0 @ [first_request] = [first_request]"
    by (simp add: db0_def)
  have 1: "create_swap_request db0 alice guitar_for_spanish =
       (db0\<lparr>swap_requests := [first_request]\<rparr>, Inr first_request)"
    using create_skill_ownership_gate [OF u b na so sw pa, unfolded row nil] oa ob by fast
  have 2: "create_swap_request db0 carol guitar_for_spanish =
       (db0, Inl (HTTPException 400 ''You don't offer the skill you're proposing to teach''))"
    using create_skill_ownership_gate [OF u b nc so sw pc] oc by fast
  have u': "find (\<lambda>u. user_id u = c_requested_id ask_carol) (users db0) = Some carol"
    by code_simp
  have c': "is_active carol"
    by (simp add: carol_def)
  have na': "c_requested_id ask_carol \<noteq> user_id alice"
    by (simp add: ask_carol_def alice_def)
  have so': "find (\<lambda>s. skill_id s = c_skill_offered_id ask_carol) (skills db0) = Some guitar"
    by code_simp
  have sw': "find (\<lambda>s. skill_id s = c_skill_wanted_id ask_carol) (skills db0) = Some spanish"
    by code_simp
  have pa': "pending_count (user_id alice) (c_requested_id ask_carol)
        (c_skill_offered_id ask_carol) (c_skill_wanted_id ask_carol) db0 = 0"
    by (simp add: pending_count_def db0_def)
  have oa': "c_skill_offered_id ask_carol \<in> set (skills_offered alice)"
    and oc': "c_skill_wanted_id ask_carol \<notin> set (skills_offered carol)"
    by (simp_all add: ask_carol_def alice_def carol_def)
  have 3: "create_swap_request db0 alice ask_carol =
       (db0, Inl (HTTPException 400
                    ''The requested user doesn't offer the skill you want to learn''))"
    using create_skill_ownership_gate [OF u' c' na' so' sw' pa'] oa' oc' by fast
  show ?thesis
    by (intro conjI u b na nc so sw pa pc oa ob 1 oc 2 u' c' na' so' sw' pa' oa' oc' 3)
qed

text \<open>
  C7. For an existing swap request, the deletion succeeds exactly when the actor is
  the requester and the status is pending; it then removes the request from the stored
  requests, so that its id is no longer found, and returns the success message. An actor
  who is not the requester gets the 403 (Forbidden) exception whatever the status; the
  requester of a request that is not pending gets the 400 (InvalidOperation) exception.
  In both cases the database, and so the request, is unchanged.
\<close>

theorem delete_requester_and_pending:
  assumes "find (\<lambda>r. request_id r = rid) (swap_requests db) = Some sr"
  shows "((\<exists>db' m. delete_swap_request db cu rid = (db', Inr m)) \<longleftrightarrow>
            (requester_id sr = user_id cu \<and> status sr = ''pending''))
       \<and> (requester_id sr = user_id cu \<and> status sr = ''pending'' \<longrightarrow>
            delete_swap_request db cu rid =
              (db\<lparr>swap_requests := filter (\<lambda>r. request_id r \<noteq> rid) (swap_requests db)\<rparr>,
               Inr ''Swap request deleted successfully'') \<and>
            find (\<lambda>r. request_id r = rid)
              (swap_requests (fst (delete_swap_request db cu rid))) = None)
       \<and> (requester_id sr \<noteq> user_id cu \<longrightarrow>
            delete_swap_request db cu rid =
              (db, Inl (HTTPException 403 ''Only the requester can delete their own requests'')))
       \<and> (requester_id sr = user_id cu \<and> status sr \<noteq> ''pending'' \<longrightarrow>
            delete_swap_request db cu rid =
              (db, Inl (HTTPException 400 ''Can only delete pending requests'')))"
  using assms by (simp add: delete_swap_request_def http_codes find_after_delete)

theorem delete_requester_and_pending_witness:
  "find (\<lambda>r. request_id r = 1) (swap_requests db1) = Some first_request
   \<and> requester_id first_request = user_id alice \<and> status first_request = ''pending''
   \<and> delete_swap_request db1 alice 1 =
       (db1\<lparr>swap_requests := []\<rparr>, Inr ''Swap request deleted successfully'')
   \<and> find (\<lambda>r. request_id r = 1) (swap_requests (fst (delete_swap_request db1 alice 1))) = None
   \<and> requester_id first_request \<noteq> user_id bob
   \<and> delete_swap_request db1 bob 1 =
       (db1, Inl (HTTPException 403 ''Only the requester can delete their own requests''))
   \<and> find (\<lambda>r. request_id r = 1) (swap_requests db2) =
       Some (first_request\<lparr>status := ''cancelled''\<rparr>)
   \<and> requester_id (first_request\<lparr>status := ''cancelled''\<rparr>) = user_id alice
   \<and> status (first_request\<lparr>status := ''cancelled''\<rparr>) \<noteq> ''pending''
   \<and> delete_swap_request db2 alice 1 =
       (db2, Inl (HTTPException 400 ''Can only delete pending requests''))
   \<and> requester_id (first_request\<lparr>status := ''cancelled''\<rparr>) \<noteq> user_id bob
   \<and> delete_swap_request db2 bob 1 =
       (db2, Inl (HTTPException 403 ''Only the requester can delete their own requests''))"
proof -
  note h1 = find_first_in_db1 and h2 = find_first_in_db2
  have a: "requester_id first_request = user_id alice"
    and p: "status first_request = ''pending''"
    and b: "requester_id first_request \<noteq> user_id bob"
    and a2: "requester_id (first_request\<lparr>status := ''cancelled''\<rparr>) = user_id alice"
    and p2: "status (first_request\<lparr>status := ''cancelled''\<rparr>) \<noteq> ''pending''"
    and b2: "requester_id (first_request\<lparr>status := ''cancelled''\<rparr>) \<noteq> user_id bob"
    by (simp_all add: first_request_def alice_def bob_def)
  have f: "filter (\<lambda>r. request_id r \<noteq> 1) (swap_requests db1) = []"
    by (simp add: db1_requests first_request_def)
  have 1: "delete_swap_request db1 alice 1 =
       (db1\<lparr>swap_requests := []\<rparr>, Inr ''Swap request deleted successfully'')"
    using delete_requester_and_pending [OF h1, of alice, unfolded f] a p by fast
  have gone: "find (\<lambda>r. request_id r = 1)
              (swap_requests (fst (delete_swap_request db1 alice 1))) = None"
    using delete_requester_and_pending [OF h1, of alice] a p by fast
  have 2: "delete_swap_request db1 bob 1 =
       (db1, Inl (HTTPException 403 ''Only the requester can delete their own requests''))"
    using delete_requester_and_pending [OF h1, of bob] b by fast
  have 3: "delete_swap_request db2 alice 1 =
       (db2, Inl (HTTPException 400 ''Can only delete pending requests''))"
    using delete_requester_and_pending [OF h2, of alice] a2 p2 by fast
  have 4: "delete_swap_request db2 bob 1 =
       (db2, Inl (HTTPException 403 ''Only the requester can delete their own requests''))"
    using delete_requester_and_pending [OF h2, of bob] b2 by fast
  show ?thesis by (intro conjI h1 a p 1 gone b 2 h2 a2 p2 3 b2 4)
qed

text \<open>
  C9. Whenever the creation, the update or the deletion of a swap request raises an
  exception, the database after the call is the database before it: no request is
  created, modified or deleted.
\<close>

theorem failure_leaves_storage_untouched:
  "(snd (create_swap_request db cu req) = Inl e \<longrightarrow>
      fst (create_swap_request db cu req) = db)
   \<and> (snd (update_swap_request db cu rid upd) = Inl e \<longrightarrow>
      fst (update_swap_request db cu rid upd) = db)
   \<and> (snd (delete_swap_request db cu rid) = Inl e \<longrightarrow>
      fst (delete_swap_request db cu rid) = db)"
  using create_outcome [of db cu req] update_outcome [of db cu rid upd]
    delete_outcome [of db cu rid]
  by auto

theorem failure_leaves_storage_untouched_witness:
  "snd (create_swap_request db1 alice guitar_for_spanish) =
     Inl (HTTPException 400 ''A pending request for this skill swap already exists'')
   \<and> fst (create_swap_request db1 alice guitar_for_spanish) = db1
   \<and> snd (update_swap_request db1 carol 1 (set_status ''completed'')) =
     Inl (HTTPException 403 ''Not authorized to update this request'')
   \<and> fst (update_swap_request db1 carol 1 (set_status ''completed'')) = db1
   \<and> snd (delete_swap_request db1 carol 1) =
     Inl (HTTPException 403 ''Only the requester can delete their own requests'')
   \<and> fst (delete_swap_request db1 carol 1) = db1"
proof -
  have c: "snd (create_swap_request db1 alice guitar_for_spanish) =
     Inl (HTTPException 400 ''A pending request for this skill swap already exists'')"
    by code_simp
  have u: "snd (update_swap_request db1 carol 1 (set_status ''completed'')) =
     Inl (HTTPException 403 ''Not authorized to update this request'')"
    by code_simp
  have d: "snd (delete_swap_request db1 carol 1) =
     Inl (HTTPException 403 ''Only the requester can delete their own requests'')"
    by code_simp
  have 1: "fst (create_swap_request db1 alice guitar_for_spanish) = db1"
    using failure_leaves_storage_untouched
      [of db1 alice guitar_for_spanish
          "HTTPException 400 ''A pending request for this skill swap already exists''"] c
    by fast
  have 2: "fst (update_swap_request db1 carol 1 (set_status ''completed'')) = db1"
    using failure_leaves_storage_untouched
      [of db1 carol _ "HTTPException 403 ''Not authorized to update this request''"
          1 "set_status ''completed''"] u
    by fast
  have 3: "fst (delete_swap_request db1 carol 1) = db1"
    using failure_leaves_storage_untouched
      [of db1 carol _ "HTTPException 403 ''Only the requester can delete their own requests''"
          1] d
    by fast
  show ?thesis by (intro conjI c 1 u 2 d 3)
qed

text \<open>
  C1 (as amended). A creation call for which a pending request with the same
  (requester, requested, skill offered, skill wanted) tuple is stored raises an exception
  and stores nothing. The exception is that of the first check that fails, in the order
  of the source: 404 "Requested user not found or inactive" when the requested user is
  missing or inactive; else 400 "Cannot request a swap with yourself" when the requested
  user is the requester; else 404 "One or both skills not found" when a skill is missing;
  else 400 "You don't offer the skill you're proposing to teach" when the requester does
  not offer the skill offered; else 400 "The requested user doesn't offer the skill you
  want to learn" when the requested user does not offer the skill wanted; else, all these
  checks passing, 400 "A pending request for this skill swap already exists" (Conflict).
  Consequently a creation keeps the number of pending requests of any tuple at most one,
  and neither a deletion nor an update to accepted, rejected, cancelled or completed
  increases it.
\<close>

theorem create_guards_pending_duplicates:
  "(0 < pending_count (user_id cu) (c_requested_id req) (c_skill_offered_id req)
          (c_skill_wanted_id req) db \<longrightarrow>
      (\<exists>e. create_swap_request db cu req = (db, Inl e)))
   \<and> (find (\<lambda>u. user_id u = c_requested_id req) (users db) = None \<longrightarrow>
        create_swap_request db cu req =
          (db, Inl (HTTPException 404 ''Requested user not found or inactive'')))
   \<and> (find (\<lambda>u. user_id u = c_requested_id req) (users db) = Some ru \<longrightarrow>
        (\<not> is_active ru \<longrightarrow>
           create_swap_request db cu req =
             (db, Inl (HTTPException 404 ''Requested user not found or inactive''))) \<and>
        (is_active ru \<and> c_requested_id req = user_id cu \<longrightarrow>
           create_swap_request db cu req =
             (db, Inl (HTTPException 400 ''Cannot request a swap with yourself''))) \<and>
        (is_active ru \<and> c_requested_id req \<noteq> user_id cu \<longrightarrow>
           (find (\<lambda>s. skill_id s = c_skill_offered_id req) (skills db) = None \<or>
            find (\<lambda>s. skill_id s = c_skill_wanted_id req) (skills db) = None \<longrightarrow>
              create_swap_request db cu req =
                (db, Inl (HTTPException 404 ''One or both skills not found''))) \<and>
           (find (\<lambda>s. skill_id s = c_skill_offered_id req) (skills db) = Some so \<and>
            find (\<lambda>s. skill_id s = c_skill_wanted_id req) (skills db) = Some sw \<longrightarrow>
              (c_skill_offered_id req \<notin> set (skills_offered cu) \<longrightarrow>
                 create_swap_request db cu req =
                   (db, Inl (HTTPException 400
                               ''You don't offer the skill you're proposing to teach''))) \<and>
              (c_skill_offered_id req \<in> set (skills_offered cu) \<and>
               c_skill_wanted_id req \<notin> set (skills_offered ru) \<longrightarrow>
                 create_swap_request db cu req =
                   (db, Inl (HTTPException 400
                               ''The requested user doesn't offer the skill you want to learn''))) \<and>
              (c_skill_offered_id req \<in> set (skills_offered cu) \<and>
               c_skill_wanted_id req \<in> set (skills_offered ru) \<and>
               0 < pending_count (user_id cu) (c_requested_id req) (c_skill_offered_id req)
                     (c_skill_wanted_id req) db \<longrightarrow>
                 create_swap_request db cu req =
                   (db, Inl (HTTPException 400
                               ''A pending request for this skill swap already exists''))))))
   \<and> (pending_count a b offered wanted db \<le> 1 \<longrightarrow>
        pending_count a b offered wanted (fst (create_swap_request db cu req)) \<le> 1)
   \<and> pending_count a b offered wanted (fst (delete_swap_request db cu rid))
        \<le> pending_count a b offered wanted db
   \<and> (u_status upd \<in> {''accepted'', ''rejected'', ''cancelled'', ''completed''} \<longrightarrow>
        pending_count a b offered wanted (fst (update_swap_request db cu rid upd))
          \<le> pending_count a b offered wanted db)"
proof -
  have dup: "\<exists>e. create_swap_request db cu req = (db, Inl e)"
    if "0 < pending_count (user_id cu) (c_requested_id req) (c_skill_offered_id req)
              (c_skill_wanted_id req) db"
    using that create_outcome [of db cu req] by (auto simp: pending_count_pos_iff)
  have lookups: "create_swap_request db cu req =
      (if c_skill_offered_id req \<notin> set (skills_offered cu) then
         (db, Inl (HTTPException 400 ''You don't offer the skill you're proposing to teach''))
       else if c_skill_wanted_id req \<notin> set (skills_offered ru) then
         (db, Inl (HTTPException 400
                     ''The requested user doesn't offer the skill you want to learn''))
       else
         (db, Inl (HTTPException 400 ''A pending request for this skill swap already exists'')))"
    if "find (\<lambda>u. user_id u = c_requested_id req) (users db) = Some ru" "is_active ru"
      "c_requested_id req \<noteq> user_id cu"
      "find (\<lambda>s. skill_id s = c_skill_offered_id req) (skills db) = Some so"
      "find (\<lambda>s. skill_id s = c_skill_wanted_id req) (skills db) = Some sw"
      "c_skill_offered_id req \<in> set (skills_offered cu) \<and>
       c_skill_wanted_id req \<in> set (skills_offered ru) \<longrightarrow>
       0 < pending_count (user_id cu) (c_requested_id req) (c_skill_offered_id req)
             (c_skill_wanted_id req) db"
    unfolding create_after_lookups [OF that(1-5)] using that(6) by simp
  have upd: "pending_count a b offered wanted (fst (update_swap_request db cu rid upd))
          \<le> pending_count a b offered wanted db"
    if "u_status upd \<in> {''accepted'', ''rejected'', ''cancelled'', ''completed''}"
  proof -
    from that have "u_status upd \<noteq> ''pending''"
      by auto
    then show ?thesis
      by (rule pending_count_update)
  qed
  show ?thesis
  proof (intro conjI impI)
    show "\<exists>e. create_swap_request db cu req = (db, Inl e)"
      if "0 < pending_count (user_id cu) (c_requested_id req) (c_skill_offered_id req)
              (c_skill_wanted_id req) db"
      using that by (rule dup)
    show "pending_count a b offered wanted (fst (create_swap_request db cu req)) \<le> 1"
      if "pending_count a b offered wanted db \<le> 1"
      using that by (rule pending_count_create)
    show "pending_count a b offered wanted (fst (delete_swap_request db cu rid))
            \<le> pending_count a b offered wanted db"
      by (rule pending_count_delete)
    show "pending_count a b offered wanted (fst (update_swap_request db cu rid upd))
            \<le> pending_count a b offered wanted db"
      if "u_status upd \<in> {''accepted'', ''rejected'', ''cancelled'', ''completed''}"
      using that by (rule upd)
  qed (simp_all add: create_user_missing create_user_inactive create_self
         create_skill_missing lookups)
qed

theorem create_guards_pending_duplicates_witness:
  "0 < pending_count (user_id alice) (c_requested_id guitar_for_spanish)
         (c_skill_offered_id guitar_for_spanish) (c_skill_wanted_id guitar_for_spanish) db1
   \<and> find (\<lambda>u. user_id u = c_requested_id guitar_for_spanish) (users db1) = Some bob
   \<and> is_active bob
   \<and> c_requested_id guitar_for_spanish \<noteq> user_id alice
   \<and> find (\<lambda>s. skill_id s = c_skill_offered_id guitar_for_spanish) (skills db1) = Some guitar
   \<and> find (\<lambda>s. skill_id s = c_skill_wanted_id guitar_for_spanish) (skills db1) = Some spanish
   \<and> c_skill_offered_id guitar_for_spanish \<in> set (skills_offered alice)
   \<and> c_skill_wanted_id guitar_for_spanish \<in> set (skills_offered bob)
   \<and> create_swap_request db1 alice guitar_for_spanish =
       (db1, Inl (HTTPException 400 ''A pending request for this skill swap already exists''))
   \<and> find (\<lambda>u. user_id u = c_requested_id ask_nobody) (users db1) = None
   \<and> create_swap_request db1 alice ask_nobody =
       (db1, Inl (HTTPException 404 ''Requested user not found or inactive''))
   \<and> 0 < pending_count (user_id alice) (c_requested_id guitar_for_spanish)
         (c_skill_offered_id guitar_for_spanish) (c_skill_wanted_id guitar_for_spanish)
         db1_bob_banned
   \<and> find (\<lambda>u. user_id u = c_requested_id guitar_for_spanish) (users db1_bob_banned) =
       Some (bob\<lparr>is_active := False\<rparr>)
   \<and> \<not> is_active (bob\<lparr>is_active := False\<rparr>)
   \<and> create_swap_request db1_bob_banned alice guitar_for_spanish =
       (db1_bob_banned, Inl (HTTPException 404 ''Requested user not found or inactive''))
   \<and> find (\<lambda>u. user_id u = c_requested_id ask_self) (users db1) = Some alice
   \<and> is_active alice \<and> c_requested_id ask_self = user_id alice
   \<and> create_swap_request db1 alice ask_self =
       (db1, Inl (HTTPException 400 ''Cannot request a swap with yourself''))
   \<and> find (\<lambda>u. user_id u = c_requested_id ask_unknown_skill) (users db1) = Some bob
   \<and> c_requested_id ask_unknown_skill \<noteq> user_id alice
   \<and> find (\<lambda>s. skill_id s = c_skill_wanted_id ask_unknown_skill) (skills db1) = None
   \<and> create_swap_request db1 alice ask_unknown_skill =
       (db1, Inl (HTTPException 404 ''One or both skills not found''))
   \<and> c_requested_id guitar_for_spanish \<noteq> user_id carol
   \<and> c_skill_offered_id guitar_for_spanish \<notin> set (skills_offered carol)
   \<and> create_swap_request db1 carol guitar_for_spanish =
       (db1, Inl (HTTPException 400 ''You don't offer the skill you're proposing to teach''))
   \<and> find (\<lambda>u. user_id u = c_requested_id ask_carol) (users db1) = Some carol
   \<and> is_active carol \<and> c_requested_id ask_carol \<noteq> user_id alice
   \<and> find (\<lambda>s. skill_id s = c_skill_offered_id ask_carol) (skills db1) = Some guitar
   \<and> find (\<lambda>s. skill_id s = c_skill_wanted_id ask_carol) (skills db1) = Some spanish
   \<and> c_skill_offered_id ask_carol \<in> set (skills_offered alice)
   \<and> c_skill_wanted_id ask_carol \<notin> set (skills_offered carol)
   \<and> create_swap_request db1 alice ask_carol =
       (db1, Inl (HTTPException 400
                    ''The requested user doesn't offer the skill you want to learn''))
   \<and> pending_count 1 2 1 2 db2 \<le> 1
   \<and> pending_count 1 2 1 2 db3 \<le> 1
   \<and> u_status (set_status ''cancelled'') \<in> {''accepted'', ''rejected'', ''cancelled'', ''completed''}
   \<and> pending_count 1 2 1 2 db2 \<le> pending_count 1 2 1 2 db1"
proof -
  have dup: "0 < pending_count (user_id alice) (c_requested_id guitar_for_spanish)
         (c_skill_offered_id guitar_for_spanish) (c_skill_wanted_id guitar_for_spanish) db1"
    by code_simp
  have u: "find (\<lambda>u. user_id u = c_requested_id guitar_for_spanish) (users db1) = Some bob"
    by code_simp
  have b: "is_active bob"
    by (simp add: bob_def)
  have na: "c_requested_id guitar_for_spanish \<noteq> user_id alice"
    and nc: "c_requested_id guitar_for_spanish \<noteq> user_id carol"
    by (simp_all add: guitar_for_spanish_def alice_def carol_def)
  have so: "find (\<lambda>s. skill_id s = c_skill_offered_id guitar_for_spanish) (skills db1) = Some guitar"
    by code_simp
  have sw: "find (\<lambda>s. skill_id s = c_skill_wanted_id guitar_for_spanish) (skills db1) = Some spanish"
    by code_simp
  have oa: "c_skill_offered_id guitar_for_spanish \<in> set (skills_offered alice)"
    and ob: "c_skill_wanted_id guitar_for_spanish \<in> set (skills_offered bob)"
    and oc: "c_skill_offered_id guitar_for_spanish \<notin> set (skills_offered carol)"
    by (simp_all add: guitar_for_spanish_def alice_def bob_def carol_def)
  have conflict: "create_swap_request db1 alice guitar_for_spanish =
       (db1, Inl (HTTPException 400 ''A pending request for this skill swap already exists''))"
    using create_guards_pending_duplicates
      [of alice guitar_for_spanish db1 bob guitar spanish] dup u b na so sw oa ob
    by fast
  have un: "find (\<lambda>u. user_id u = c_requested_id ask_nobody) (users db1) = None"
    by code_simp
  have missing: "create_swap_request db1 alice ask_nobody =
       (db1, Inl (HTTPException 404 ''Requested user not found or inactive''))"
    using create_guards_pending_duplicates [of alice ask_nobody db1] un
    by fast
  have dupb: "0 < pending_count (user_id alice) (c_requested_id guitar_for_spanish)
         (c_skill_offered_id guitar_for_spanish) (c_skill_wanted_id guitar_for_spanish)
         db1_bob_banned"
    by code_simp
  have ub: "find (\<lambda>u. user_id u = c_requested_id guitar_for_spanish) (users db1_bob_banned) =
       Some (bob\<lparr>is_active := False\<rparr>)"
    by code_simp
  have ib: "\<not> is_active (bob\<lparr>is_active := False\<rparr>)"
    by simp
  have banned: "create_swap_request db1_bob_banned alice guitar_for_spanish =
       (db1_bob_banned, Inl (HTTPException 404 ''Requested user not found or inactive''))"
    using create_guards_pending_duplicates
      [of alice guitar_for_spanish db1_bob_banned "bob\<lparr>is_active := False\<rparr>"] ub ib
    by fast
  have us: "find (\<lambda>u. user_id u = c_requested_id ask_self) (users db1) = Some alice"
    by code_simp
  have ia: "is_active alice" and es: "c_requested_id ask_self = user_id alice"
    by (simp_all add: alice_def ask_self_def)
  have self: "create_swap_request db1 alice ask_self =
       (db1, Inl (HTTPException 400 ''Cannot request a swap with yourself''))"
    using create_guards_pending_duplicates [of alice ask_self db1 alice] us ia es
    by fast
  have uk: "find (\<lambda>u. user_id u = c_requested_id ask_unknown_skill) (users db1) = Some bob"
    by code_simp
  have nk: "c_requested_id ask_unknown_skill \<noteq> user_id alice"
    by (simp add: ask_unknown_skill_def alice_def)
  have sk: "find (\<lambda>s. skill_id s = c_skill_wanted_id ask_unknown_skill) (skills db1) = None"
    by code_simp
  have noskill: "create_swap_request db1 alice ask_unknown_skill =
       (db1, Inl (HTTPException 404 ''One or both skills not found''))"
    using create_guards_pending_duplicates [of alice ask_unknown_skill db1 bob] uk b nk sk
    by fast
  have notoffered: "create_swap_request db1 carol guitar_for_spanish =
       (db1, Inl (HTTPException 400 ''You don't offer the skill you're proposing to teach''))"
    using create_guards_pending_duplicates
      [of carol guitar_for_spanish db1 bob guitar spanish] u b nc so sw oc
    by fast
  have uc: "find (\<lambda>u. user_id u = c_requested_id ask_carol) (users db1) = Some carol"
    by code_simp
  have ic: "is_active carol" and ncar: "c_requested_id ask_carol \<noteq> user_id alice"
    by (simp_all add: carol_def ask_carol_def alice_def)
  have soc: "find (\<lambda>s. skill_id s = c_skill_offered_id ask_carol) (skills db1) = Some guitar"
    by code_simp
  have swc: "find (\<lambda>s. skill_id s = c_skill_wanted_id ask_carol) (skills db1) = Some spanish"
    by code_simp
  have oac: "c_skill_offered_id ask_carol \<in> set (skills_offered alice)"
    and occ: "c_skill_wanted_id ask_carol \<notin> set (skills_offered carol)"
    by (simp_all add: ask_carol_def alice_def carol_def)
  have notwanted: "create_swap_request db1 alice ask_carol =
       (db1, Inl (HTTPException 400
                    ''The requested user doesn't offer the skill you want to learn''))"
    using create_guards_pending_duplicates
      [of alice ask_carol db1 carol guitar spanish] uc ic ncar soc swc oac occ
    by fast
  have p2: "pending_count 1 2 1 2 db2 \<le> 1"
    by code_simp
  have p3: "pending_count 1 2 1 2 db3 \<le> 1"
    unfolding db3_def
    using create_guards_pending_duplicates
      [of alice guitar_for_spanish db2 _ _ _ 1 2 1 2] p2
    by fast
  have s: "u_status (set_status ''cancelled'') \<in>
             {''accepted'', ''rejected'', ''cancelled'', ''completed''}"
    by (simp add: set_status_def)
  have p12: "pending_count 1 2 1 2 db2 \<le> pending_count 1 2 1 2 db1"
    unfolding db2_def
    using create_guards_pending_duplicates
      [of alice _ db1 _ _ _ 1 2 1 2 1 "set_status ''cancelled''"] s
    by fast
  show ?thesis
    by (intro conjI dup u b na so sw oa ob conflict un missing dupb ub ib banned
          us ia es self uk nk sk noskill nc oc notoffered uc ic ncar soc swc oac occ
          notwanted p2 p3 s p12)
qed

text \<open>
  The claim as stated fails twice. After Alice proposes, cancels and proposes again, an
  update of the first request to pending (by Carol, who is no party to it) leaves two
  pending requests with one tuple. And with a pending duplicate stored and the
  requested user banned, the creation raises the 404 of the first check, not the 400
  of the duplicate query.
\<close>

theorem pending_uniqueness_counterexample:
  "map request_id (swap_requests db4) = [1, 2]
   \<and> map status (swap_requests db4) = [''pending'', ''pending'']
   \<and> pending_count 1 2 1 2 db4 = 2
   \<and> 0 < pending_count (user_id alice) (c_requested_id guitar_for_spanish)
         (c_skill_offered_id guitar_for_spanish) (c_skill_wanted_id guitar_for_spanish)
         db1_bob_banned
   \<and> create_swap_request db1_bob_banned alice guitar_for_spanish =
       (db1_bob_banned, Inl (HTTPException 404 ''Requested user not found or inactive''))"
  by code_simp

text \<open>
  C4. The claim: the status of a stored swap request is always one of pending,
  accepted, rejected, completed, cancelled. The code stores whatever string the update
  body carries: here Carol, no party to the request, sets the status of Alice's request
  to a string outside the five.
\<close>

theorem update_stores_unlisted_status:
  "update_swap_request db1 carol 1 (set_status ''archived'') =
     (db1\<lparr>swap_requests := [first_request\<lparr>status := ''archived''\<rparr>]\<rparr>,
      Inr (first_request\<lparr>status := ''archived''\<rparr>))
   \<and> ''archived'' \<notin> set [''pending'', ''accepted'', ''rejected'', ''completed'', ''cancelled'']"
  by code_simp

text \<open>
  C8. The claim: a creation whose name has the same trimmed, case-insensitive form as
  an approved skill returns that skill. The code looks the name up as it was sent, as a
  \<^verbatim>\<open>LIKE\<close> pattern, and trims it only for the new row. With the approved skill Guitar
  stored, the name " guitar" matches no row, the new row is named Guitar, and the commit
  raises \<open>IntegrityError\<close>; the name "gu%" is no form of Guitar, yet the stored
  skill is returned and no skill is created.
\<close>

theorem create_skill_lookup_untrimmed:
  "guitar \<in> set (skills db0) \<and> is_approved guitar
   \<and> title (strip '' guitar'') = name guitar
   \<and> create_skill db0 alice \<lparr>s_name = '' guitar'', s_category = None, s_description = None\<rparr> =
       (db0, Inl (IntegrityError ''UNIQUE constraint failed: skills.name''))
   \<and> create_skill db0 alice \<lparr>s_name = ''gu%'', s_category = None, s_description = None\<rparr> =
       (db0, Inr guitar)"
  by code_simp

text \<open>
  C10. A feedback submission succeeds only when the referenced swap request
  exists, the giver and the receiver are each one of its two parties, they differ, and
  the rating is between 1 and 5; a rating outside that range fails with Validation and
  stores nothing.
\<close>

theorem submitFeedback_requirements:
  "(submitFeedback db giver body = (db', Inr fb) \<longrightarrow>
      (\<exists>r. find (\<lambda>r. request_id r = f_swap_request_id body) (swap_requests db) = Some r \<and>
           giver \<in> {requester_id r, requested_id r} \<and>
           f_receiver_id body \<in> {requester_id r, requested_id r}) \<and>
      giver \<noteq> f_receiver_id body \<and> 1 \<le> f_rating body \<and> f_rating body \<le> 5)
   \<and> (f_rating body < 1 \<or> 5 < f_rating body \<longrightarrow>
        submitFeedback db giver body = (db, Inl Validation))"
  by (auto simp: submitFeedback_def Let_def split: option.splits if_splits)

theorem submitFeedback_requirements_witness:
  "submitFeedback db1 1
      \<lparr>f_swap_request_id = 1, f_receiver_id = 2, f_rating = 5, f_comment = None\<rparr> =
     (db1\<lparr>feedback := [\<lparr>feedback_id = 1, swap_request_id = 1, giver_id = 1, receiver_id = 2,
                         rating = 5, comment = None\<rparr>]\<rparr>,
      Inr \<lparr>feedback_id = 1, swap_request_id = 1, giver_id = 1, receiver_id = 2,
           rating = 5, comment = None\<rparr>)
   \<and> (\<exists>r. find (\<lambda>r. request_id r = 1) (swap_requests db1) = Some r \<and>
           1 \<in> {requester_id r, requested_id r} \<and> 2 \<in> {requester_id r, requested_id r})
   \<and> 5 < f_rating \<lparr>f_swap_request_id = 1, f_receiver_id = 2, f_rating = 6, f_comment = None\<rparr>
   \<and> submitFeedback db1 1
        \<lparr>f_swap_request_id = 1, f_receiver_id = 2, f_rating = 6, f_comment = None\<rparr> =
       (db1, Inl Validation)"
proof -
  have ok: "submitFeedback db1 1
      \<lparr>f_swap_request_id = 1, f_receiver_id = 2, f_rating = 5, f_comment = None\<rparr> =
     (db1\<lparr>feedback := [\<lparr>feedback_id = 1, swap_request_id = 1, giver_id = 1, receiver_id = 2,
                         rating = 5, comment = None\<rparr>]\<rparr>,
      Inr \<lparr>feedback_id = 1, swap_request_id = 1, giver_id = 1, receiver_id = 2,
           rating = 5, comment = None\<rparr>)"
    by code_simp
  have 1: "\<exists>r. find (\<lambda>r. request_id r = 1) (swap_requests db1) = Some r \<and>
           1 \<in> {requester_id r, requested_id r} \<and> 2 \<in> {requester_id r, requested_id r}"
    using submitFeedback_requirements
      [of db1 1 "\<lparr>f_swap_request_id = 1, f_receiver_id = 2, f_rating = 5, f_comment = None\<rparr>"
          "db1\<lparr>feedback := [\<lparr>feedback_id = 1, swap_request_id = 1, giver_id = 1,
                              receiver_id = 2, rating = 5, comment = None\<rparr>]\<rparr>"
          "\<lparr>feedback_id = 1, swap_request_id = 1, giver_id = 1, receiver_id = 2,
            rating = 5, comment = None\<rparr>"] ok
    by simp
  have r: "5 < f_rating \<lparr>f_swap_request_id = 1, f_receiver_id = 2, f_rating = 6, f_comment = None\<rparr>"
    by simp
  have 2: "submitFeedback db1 1
        \<lparr>f_swap_request_id = 1, f_receiver_id = 2, f_rating = 6, f_comment = None\<rparr> =
       (db1, Inl Validation)"
    using submitFeedback_requirements
      [of db1 1 "\<lparr>f_swap_request_id = 1, f_receiver_id = 2, f_rating = 6, f_comment = None\<rparr>"] r
    by fast
  show ?thesis by (intro conjI ok 1 r 2)
qed

end
